theory Spec2Isabelle
  imports Main "HOL-Library.Word"
begin

section \<open>The MMS PDU model of \<^verbatim>\<open>mms/mms.go\<close>\<close>

text \<open>
  A shallow embedding of the Go package \<^verbatim>\<open>mms\<close>: its byte constants, its PDU structs as
  records, the \<^verbatim>\<open>encode\<close> struct tags as a table, the constructors, the identifier
  generator and the classifier of the response status.  Go's \<^verbatim>\<open>byte\<close> is an 8-bit word,
  \<^verbatim>\<open>uint64\<close> a 64-bit word, \<^verbatim>\<open>string\<close> a list of characters.
\<close>

type_synonym byte = "8 word"
type_synonym uint64 = "64 word"

subsection \<open>Constants\<close>

text \<open>Message types and versions (the ones the constructors store).\<close>

definition TYPE_SEND_REQ :: byte where "TYPE_SEND_REQ = 0x80"
definition TYPE_SEND_CONF :: byte where "TYPE_SEND_CONF = 0x81"
definition TYPE_NOTIFICATION_IND :: byte where "TYPE_NOTIFICATION_IND = 0x82"
definition TYPE_NOTIFYRESP_IND :: byte where "TYPE_NOTIFYRESP_IND = 0x83"
definition TYPE_RETRIEVE_CONF :: byte where "TYPE_RETRIEVE_CONF = 0x84"
definition TYPE_ACKNOWLEDGE_IND :: byte where "TYPE_ACKNOWLEDGE_IND = 0x85"
definition TYPE_DELIVERY_IND :: byte where "TYPE_DELIVERY_IND = 0x86"

definition MMS_MESSAGE_VERSION_1_0 :: byte where "MMS_MESSAGE_VERSION_1_0 = 0x90"
definition MMS_MESSAGE_VERSION_1_1 :: byte where "MMS_MESSAGE_VERSION_1_1 = 0x91"
definition MMS_MESSAGE_VERSION_1_2 :: byte where "MMS_MESSAGE_VERSION_1_2 = 0x92"
definition MMS_MESSAGE_VERSION_1_3 :: byte where "MMS_MESSAGE_VERSION_1_3 = 0x93"

text \<open>Response Status, OMA-WAP-MMS section 7.2.27.\<close>

definition ResponseStatusOk :: byte where "ResponseStatusOk = 128"
definition ResponseStatusErrorUnspecified :: byte where "ResponseStatusErrorUnspecified = 129"
definition ResponseStatusErrorServiceDenied :: byte where "ResponseStatusErrorServiceDenied = 130"
definition ResponseStatusErrorMessageFormatCorrupt :: byte where
  "ResponseStatusErrorMessageFormatCorrupt = 131"
definition ResponseStatusErrorSendingAddressUnresolved :: byte where
  "ResponseStatusErrorSendingAddressUnresolved = 132"
definition ResponseStatusErrorMessageNotFound :: byte where
  "ResponseStatusErrorMessageNotFound = 133"
definition ResponseStatusErrorNetworkProblem :: byte where
  "ResponseStatusErrorNetworkProblem = 134"
definition ResponseStatusErrorContentNotAccepted :: byte where
  "ResponseStatusErrorContentNotAccepted = 135"
definition ResponseStatusErrorUnsupportedMessage :: byte where
  "ResponseStatusErrorUnsupportedMessage = 136"
definition ResponseStatusErrorTransientFailure :: byte where
  "ResponseStatusErrorTransientFailure = 192"
definition ResponseStatusErrorTransientMaxReserved :: byte where
  "ResponseStatusErrorTransientMaxReserved = 223"
definition ResponseStatusErrorPermanentFailure :: byte where
  "ResponseStatusErrorPermanentFailure = 224"
definition ResponseStatusErrorPermamentMaxReserved :: byte where
  "ResponseStatusErrorPermamentMaxReserved = 255"

text \<open>Status, OMA-WAP-MMS section 7.2.23.\<close>

definition STATUS_EXPIRED :: byte where "STATUS_EXPIRED = 128"
definition STATUS_RETRIEVED :: byte where "STATUS_RETRIEVED = 129"
definition STATUS_REJECTED :: byte where "STATUS_REJECTED = 130"
definition STATUS_DEFERRED :: byte where "STATUS_DEFERRED = 131"
definition STATUS_UNRECOGNIZED :: byte where "STATUS_UNRECOGNIZED = 132"

subsection \<open>Slices and the heap\<close>

text \<open>
  \<^verbatim>\<open>NewMSendReq\<close> writes through the slice it is given, so the caller's view of the
  backing array matters.  A slice value is its backing array's address, the index of its
  first element there, and its length (the capacity is left out: nothing appends).  The
  heap holds the backing arrays of the \<^verbatim>\<open>[]string\<close> slices, those of the
  \<^verbatim>\<open>[]*Attachment\<close> slices (a nil pointer is \<open>None\<close>) and the \<^verbatim>\<open>Attachment\<close> objects;
  the type \<^verbatim>\<open>Attachment\<close> is declared outside this file and is the parameter \<open>'a\<close>.
\<close>

type_synonym addr = nat

record slice =
  array :: addr
  off :: nat
  len :: nat

record 'a heap =
  strings :: "addr \<Rightarrow> string list"
  attachment_ptrs :: "addr \<Rightarrow> addr option list"
  attachment_objs :: "addr \<Rightarrow> 'a"

text \<open>
  The Go runtime keeps every slice inside its backing array; indexing \<^verbatim>\<open>s[i]\<close> with
  \<open>i < len s\<close> then never panics.
\<close>

definition valid_slice :: "'a heap \<Rightarrow> slice \<Rightarrow> bool" where
  "valid_slice h s = (off s + len s \<le> length (strings h (array s)))"

text \<open>\<^verbatim>\<open>s[i]\<close> read and written, and the elements a slice shows.\<close>

definition slice_get :: "'a heap \<Rightarrow> slice \<Rightarrow> nat \<Rightarrow> string" where
  "slice_get h s i = strings h (array s) ! (off s + i)"

definition slice_set :: "'a heap \<Rightarrow> slice \<Rightarrow> nat \<Rightarrow> string \<Rightarrow> 'a heap" where
  "slice_set h s i v =
     h\<lparr>strings := (strings h)(array s := (strings h (array s))[off s + i := v])\<rparr>"

definition slice_elems :: "'a heap \<Rightarrow> slice \<Rightarrow> string list" where
  "slice_elems h s = take (len s) (drop (off s) (strings h (array s)))"

text \<open>The nil slice: no element, no backing array is ever read through it.\<close>

definition nil_slice :: slice where
  "nil_slice = \<lparr>array = 0, off = 0, len = 0\<rparr>"

subsection \<open>The PDU structs\<close>

text \<open>
  \<^verbatim>\<open>MMSReader\<close> is \<^verbatim>\<open>interface{}\<close>: an embedded field that is nil (\<open>None\<close>) or holds a
  value of some dynamic type \<open>'r\<close>.
\<close>

record MSendReq =
  UUID :: string
  Type :: byte
  TransactionId :: string
  Version :: byte
  Date :: uint64
  From :: string
  To :: string
  Cc :: string
  Bcc :: string
  Subject :: string
  Class :: byte
  Expiry :: uint64
  DeliveryTime :: uint64
  Priority :: byte
  SenderVisibility :: byte
  DeliveryReport :: byte
  ReadReply :: byte
  ContentType :: string
  Attachments :: slice

record MSendConf =
  Type :: byte
  TransactionId :: string
  Version :: byte
  ResponseStatus :: byte
  ResponseText :: string
  MessageId :: string

record 'r MNotificationInd =
  MMSReader :: "'r option"
  UUID :: string
  Type :: byte
  Version :: byte
  Class :: byte
  DeliveryReport :: byte
  ReplyCharging :: byte
  ReplyChargingDeadline :: byte
  ReplyChargingId :: string
  TransactionId :: string
  ContentLocation :: string
  From :: string
  Subject :: string
  Expiry :: uint64
  Size :: uint64

record MNotifyRespInd =
  UUID :: string
  Type :: byte
  TransactionId :: string
  Version :: byte
  Status :: byte
  ReportAllowed :: bool

record ('r, 'a) MRetrieveConf =
  MMSReader :: "'r option"
  UUID :: string
  Type :: byte
  Version :: byte
  Status :: byte
  Class :: byte
  Priority :: byte
  ReplyCharging :: byte
  ReplyChargingDeadline :: byte
  ReplyChargingId :: string
  ReadReport :: byte
  RetrieveStatus :: byte
  DeliveryReport :: byte
  TransactionId :: string
  MessageId :: string
  RetrieveText :: string
  From :: string
  Cc :: string
  Subject :: string
  To :: string
  ReportAllowed :: bool
  Date :: uint64
  Content :: 'a
  Attachments :: "'a list"
  Data :: "byte list"

subsection \<open>The \<^verbatim>\<open>encode\<close> struct tags\<close>

text \<open>
  The struct declarations again, as the table a reflecting encoder reads: every field of
  every struct in declaration order, with the value of its \<^verbatim>\<open>encode\<close> tag (\<open>None\<close> where
  the field has no tag).
\<close>

datatype struct_name =
  T_MSendReq | T_MSendConf | T_MNotificationInd | T_MNotifyRespInd | T_MRetrieveConf

fun struct_fields :: "struct_name \<Rightarrow> (string \<times> string option) list" where
  "struct_fields T_MSendReq =
     [(''UUID'', Some ''no''), (''Type'', None), (''TransactionId'', None), (''Version'', None),
      (''Date'', Some ''optional''), (''From'', None), (''To'', None), (''Cc'', Some ''no''),
      (''Bcc'', Some ''no''), (''Subject'', Some ''optional''), (''Class'', Some ''optional''),
      (''Expiry'', Some ''optional''), (''DeliveryTime'', Some ''optional''),
      (''Priority'', Some ''optional''), (''SenderVisibility'', Some ''optional''),
      (''DeliveryReport'', Some ''optional''), (''ReadReply'', Some ''optional''),
      (''ContentType'', None), (''Attachments'', Some ''no'')]"
| "struct_fields T_MSendConf =
     [(''Type'', None), (''TransactionId'', None), (''Version'', None),
      (''ResponseStatus'', None), (''ResponseText'', None), (''MessageId'', None)]"
| "struct_fields T_MNotificationInd =
     [(''MMSReader'', None), (''UUID'', None), (''Type'', None), (''Version'', None),
      (''Class'', None), (''DeliveryReport'', None), (''ReplyCharging'', None),
      (''ReplyChargingDeadline'', None), (''ReplyChargingId'', None),
      (''TransactionId'', None), (''ContentLocation'', None), (''From'', None),
      (''Subject'', None), (''Expiry'', None), (''Size'', None)]"
| "struct_fields T_MNotifyRespInd =
     [(''UUID'', Some ''no''), (''Type'', None), (''TransactionId'', None), (''Version'', None),
      (''Status'', None), (''ReportAllowed'', None)]"
| "struct_fields T_MRetrieveConf =
     [(''MMSReader'', None), (''UUID'', None), (''Type'', None), (''Version'', None),
      (''Status'', None), (''Class'', None), (''Priority'', None), (''ReplyCharging'', None),
      (''ReplyChargingDeadline'', None), (''ReplyChargingId'', None), (''ReadReport'', None),
      (''RetrieveStatus'', None), (''DeliveryReport'', None), (''TransactionId'', None),
      (''MessageId'', None), (''RetrieveText'', None), (''From'', None), (''Cc'', None),
      (''Subject'', None), (''To'', None), (''ReportAllowed'', None), (''Date'', None),
      (''Content'', None), (''Attachments'', None), (''Data'', None)]"

definition field_names :: "struct_name \<Rightarrow> string list" where
  "field_names t = map fst (struct_fields t)"

text \<open>The \<^verbatim>\<open>encode\<close> tag of a field; \<open>None\<close> for an untagged (or undeclared) field.\<close>

definition encode_tag :: "struct_name \<Rightarrow> string \<Rightarrow> string option" where
  "encode_tag t f = (case map_of (struct_fields t) f of None \<Rightarrow> None | Some tag \<Rightarrow> tag)"

subsection \<open>The identifier generator\<close>

text \<open>
  What \<^verbatim>\<open>/dev/urandom\<close> does during one call of \<^verbatim>\<open>genUUID\<close>: \<^verbatim>\<open>os.Open\<close> fails, or it
  succeeds and the one \<^verbatim>\<open>Read\<close> delivers some bytes (as many as fit are stored) and
  reports an error or not.
\<close>

datatype urandom = OpenFails | Opens "byte list" bool

text \<open>\<^verbatim>\<open>random.Read(b)\<close>: the buffer after the call, the delivered bytes at its front.\<close>

definition Read :: "byte list \<Rightarrow> byte list \<Rightarrow> byte list" where
  "Read delivered b = take (length b) delivered @ drop (length delivered) b"

text \<open>\<^verbatim>\<open>fmt.Sprintf("%x", b)\<close> on a byte slice: two lower-case hex digits per byte.\<close>

definition ldigits :: string where
  "ldigits = ''0123456789abcdef''"

definition hex_byte :: "byte \<Rightarrow> string" where
  "hex_byte c = [ldigits ! (unat c div 16), ldigits ! (unat c mod 16)]"

definition Sprintf_x :: "byte list \<Rightarrow> string" where
  "Sprintf_x b = concat (map hex_byte b)"

text \<open>
  \<^verbatim>\<open>genUUID\<close>: the literal when the open fails; otherwise a zeroed buffer of 16 bytes is
  read into and printed.  Both results of \<^verbatim>\<open>Read\<close> (the count and the error) are
  dropped by the source, so the error flag is not looked at.
\<close>

definition genUUID :: "urandom \<Rightarrow> string" where
  "genUUID random =
     (case random of
        OpenFails \<Rightarrow> ''1234567890ABCDEF''
      | Opens delivered err \<Rightarrow>
          (let b = replicate 16 (0 :: byte);
               b = Read delivered b
           in Sprintf_x b))"

subsection \<open>Constructors\<close>

text \<open>\<^verbatim>\<open>strings.Join\<close>.\<close>

fun Join :: "string list \<Rightarrow> string \<Rightarrow> string" where
  "Join [] sep = []"
| "Join [x] sep = x"
| "Join (x # y # ys) sep = x @ sep @ Join (y # ys) sep"

text \<open>
  The loop \<^verbatim>\<open>for i := range recipients { recipients[i] += "/TYPE=PLMN" }\<close>, from index
  \<open>i\<close> up to the length \<open>n\<close> taken when the loop starts.
\<close>

function range_recipients :: "nat \<Rightarrow> nat \<Rightarrow> slice \<Rightarrow> 'a heap \<Rightarrow> 'a heap" where
  "range_recipients i n recipients h =
     (if i < n
      then range_recipients (Suc i) n recipients
             (slice_set h recipients i (slice_get h recipients i @ ''/TYPE=PLMN''))
      else h)"
  by pat_completeness auto
termination
  by (relation "measure (\<lambda>(i, n, recipients, h). n - i)") auto

declare range_recipients.simps [simp del]

text \<open>
  \<^verbatim>\<open>NewMSendReq\<close>: the heap after the loop, and the new struct; the fields the literal
  does not name hold their zero values.
\<close>

definition NewMSendReq :: "urandom \<Rightarrow> slice \<Rightarrow> slice \<Rightarrow> 'a heap \<Rightarrow> 'a heap \<times> MSendReq" where
  "NewMSendReq random recipients attachments h =
     (let h' = range_recipients 0 (len recipients) recipients h;
          uuid = genUUID random
      in (h',
          \<lparr>MSendReq.UUID = uuid,
           Type = TYPE_SEND_REQ,
           TransactionId = uuid,
           Version = MMS_MESSAGE_VERSION_1_3,
           Date = 0, From = '''',
           To = Join (slice_elems h' recipients) '','',
           Cc = '''', Bcc = '''', Subject = '''', Class = 0, Expiry = 0, DeliveryTime = 0,
           Priority = 0, SenderVisibility = 0, DeliveryReport = 0, ReadReply = 0,
           ContentType = ''application/vnd.wap.multipart.related'',
           Attachments = attachments\<rparr>))"

definition NewMSendConf :: MSendConf where
  "NewMSendConf =
     \<lparr>MSendConf.Type = TYPE_SEND_CONF, TransactionId = '''', Version = 0, ResponseStatus = 0,
      ResponseText = '''', MessageId = ''''\<rparr>"

definition NewMNotificationInd :: "urandom \<Rightarrow> 'r MNotificationInd" where
  "NewMNotificationInd random =
     \<lparr>MNotificationInd.MMSReader = None, UUID = genUUID random, Type = TYPE_NOTIFICATION_IND,
      Version = 0, Class = 0, DeliveryReport = 0, ReplyCharging = 0, ReplyChargingDeadline = 0,
      ReplyChargingId = '''', TransactionId = '''', ContentLocation = '''', From = '''',
      Subject = '''', Expiry = 0, Size = 0\<rparr>"

text \<open>The two methods \<^verbatim>\<open>NewMNotifyRespInd\<close>, named after their receivers.\<close>

definition MNotificationInd_NewMNotifyRespInd ::
  "'r MNotificationInd \<Rightarrow> byte \<Rightarrow> bool \<Rightarrow> MNotifyRespInd" where
  "MNotificationInd_NewMNotifyRespInd mNotificationInd status deliveryReport =
     \<lparr>MNotifyRespInd.UUID = MNotificationInd.UUID mNotificationInd,
      Type = TYPE_NOTIFYRESP_IND,
      TransactionId = MNotificationInd.TransactionId mNotificationInd,
      Version = MNotificationInd.Version mNotificationInd,
      Status = status,
      ReportAllowed = deliveryReport\<rparr>"

definition MRetrieveConf_NewMNotifyRespInd ::
  "('r, 'a) MRetrieveConf \<Rightarrow> bool \<Rightarrow> MNotifyRespInd" where
  "MRetrieveConf_NewMNotifyRespInd mRetrieveConf deliveryReport =
     \<lparr>MNotifyRespInd.UUID = MRetrieveConf.UUID mRetrieveConf,
      Type = TYPE_NOTIFYRESP_IND,
      TransactionId = MRetrieveConf.TransactionId mRetrieveConf,
      Version = MRetrieveConf.Version mRetrieveConf,
      Status = STATUS_RETRIEVED,
      ReportAllowed = deliveryReport\<rparr>"

definition NewMNotifyRespInd :: MNotifyRespInd where
  "NewMNotifyRespInd =
     \<lparr>MNotifyRespInd.UUID = '''', Type = TYPE_NOTIFYRESP_IND, TransactionId = '''',
      Version = 0, Status = 0, ReportAllowed = False\<rparr>"

text \<open>
  \<^verbatim>\<open>NewMRetrieveConf\<close>: the zero value of \<^verbatim>\<open>Attachment\<close>, a struct declared outside this
  file, is the first argument.
\<close>

definition NewMRetrieveConf :: "'a \<Rightarrow> string \<Rightarrow> ('r, 'a) MRetrieveConf" where
  "NewMRetrieveConf zero_attachment uuid =
     \<lparr>MRetrieveConf.MMSReader = None, UUID = uuid, Type = TYPE_RETRIEVE_CONF, Version = 0,
      Status = 0, Class = 0, Priority = 0, ReplyCharging = 0, ReplyChargingDeadline = 0,
      ReplyChargingId = '''', ReadReport = 0, RetrieveStatus = 0, DeliveryReport = 0,
      TransactionId = '''', MessageId = '''', RetrieveText = '''', From = '''', Cc = '''',
      Subject = '''', To = '''', ReportAllowed = False, Date = 0, Content = zero_attachment,
      Attachments = [], Data = []\<rparr>"

subsection \<open>The classifier of the response status\<close>

text \<open>
  The two package-level error values.  \<^verbatim>\<open>Status()\<close> returns Go's \<^verbatim>\<open>error\<close>: \<^verbatim>\<open>nil\<close> is
  \<open>None\<close>, \<^verbatim>\<open>ErrTransient\<close> and \<^verbatim>\<open>ErrPermanent\<close> are the two values it can hold.
\<close>

datatype error = ErrTransient | ErrPermanent

text \<open>
  \<^verbatim>\<open>func (mSendConf *MSendConf) Status() error\<close>: the \<^verbatim>\<open>switch\<close> over the nine
  codes one by one, in the order of the source, then the two grouped ranges, then the
  default.
\<close>

definition MSendConf_Status :: "MSendConf \<Rightarrow> error option" where
  "MSendConf_Status mSendConf =
     (let s = ResponseStatus mSendConf in
      if s = ResponseStatusOk then None
      else if s = ResponseStatusErrorUnspecified then Some ErrTransient
      else if s = ResponseStatusErrorServiceDenied then Some ErrTransient
      else if s = ResponseStatusErrorMessageFormatCorrupt then Some ErrPermanent
      else if s = ResponseStatusErrorSendingAddressUnresolved then Some ErrPermanent
      else if s = ResponseStatusErrorMessageNotFound then Some ErrPermanent
      else if s = ResponseStatusErrorNetworkProblem then Some ErrTransient
      else if s = ResponseStatusErrorContentNotAccepted then Some ErrPermanent
      else if s = ResponseStatusErrorUnsupportedMessage then Some ErrPermanent
      else if s \<ge> ResponseStatusErrorTransientFailure
            \<and> s \<le> ResponseStatusErrorTransientMaxReserved then Some ErrTransient
      else if s \<ge> ResponseStatusErrorPermanentFailure
            \<and> s \<le> ResponseStatusErrorPermamentMaxReserved then Some ErrPermanent
      else Some ErrPermanent)"

section \<open>Properties\<close>

subsection \<open>The classifier\<close>

lemmas ResponseStatus_defs =
  ResponseStatusOk_def ResponseStatusErrorUnspecified_def ResponseStatusErrorServiceDenied_def
  ResponseStatusErrorMessageFormatCorrupt_def ResponseStatusErrorSendingAddressUnresolved_def
  ResponseStatusErrorMessageNotFound_def ResponseStatusErrorNetworkProblem_def
  ResponseStatusErrorContentNotAccepted_def ResponseStatusErrorUnsupportedMessage_def
  ResponseStatusErrorTransientFailure_def ResponseStatusErrorTransientMaxReserved_def
  ResponseStatusErrorPermanentFailure_def ResponseStatusErrorPermamentMaxReserved_def

text \<open>The classifier read on the unsigned value of the status byte.\<close>

lemma Status_unat:
  "MSendConf_Status c =
     (let n = unat (ResponseStatus c) in
      if n = 128 then None
      else if n \<in> {129, 130, 134} then Some ErrTransient
      else if 192 \<le> n \<and> n \<le> 223 then Some ErrTransient
      else Some ErrPermanent)"
  unfolding MSendConf_Status_def Let_def ResponseStatus_defs
  by (simp add: word_le_nat_alt word_unat_eq_iff)

text \<open>
  Claim C1.  For every status byte: \<^verbatim>\<open>Status()\<close> is \<^verbatim>\<open>nil\<close> (Ok) at 128,
  \<^verbatim>\<open>ErrTransient\<close> on 192..223, \<^verbatim>\<open>ErrPermanent\<close> on 224..255, and \<^verbatim>\<open>ErrPermanent\<close> on
  every other byte outside the legacy codes, that is on 0..127 and on 137..191.
\<close>

theorem Status_ranges:
  "(ResponseStatus c = 128 \<longrightarrow> MSendConf_Status c = None) \<and>
   (192 \<le> ResponseStatus c \<and> ResponseStatus c \<le> 223
      \<longrightarrow> MSendConf_Status c = Some ErrTransient) \<and>
   (224 \<le> ResponseStatus c \<and> ResponseStatus c \<le> 255
      \<longrightarrow> MSendConf_Status c = Some ErrPermanent) \<and>
   (ResponseStatus c \<le> 127 \<or> (137 \<le> ResponseStatus c \<and> ResponseStatus c \<le> 191)
      \<longrightarrow> MSendConf_Status c = Some ErrPermanent)"
  by (auto simp: Status_unat Let_def word_le_nat_alt word_unat_eq_iff)

text \<open>The theorem at 128 and at both ends of each of the four ranges.\<close>

theorem Status_ranges_witness:
  "MSendConf_Status (NewMSendConf\<lparr>ResponseStatus := 128\<rparr>) = None \<and>
   MSendConf_Status (NewMSendConf\<lparr>ResponseStatus := 192\<rparr>) = Some ErrTransient \<and>
   MSendConf_Status (NewMSendConf\<lparr>ResponseStatus := 223\<rparr>) = Some ErrTransient \<and>
   MSendConf_Status (NewMSendConf\<lparr>ResponseStatus := 224\<rparr>) = Some ErrPermanent \<and>
   MSendConf_Status (NewMSendConf\<lparr>ResponseStatus := 255\<rparr>) = Some ErrPermanent \<and>
   MSendConf_Status (NewMSendConf\<lparr>ResponseStatus := 0\<rparr>) = Some ErrPermanent \<and>
   MSendConf_Status (NewMSendConf\<lparr>ResponseStatus := 127\<rparr>) = Some ErrPermanent \<and>
   MSendConf_Status (NewMSendConf\<lparr>ResponseStatus := 137\<rparr>) = Some ErrPermanent \<and>
   MSendConf_Status (NewMSendConf\<lparr>ResponseStatus := 191\<rparr>) = Some ErrPermanent"
  using Status_ranges [of "NewMSendConf\<lparr>ResponseStatus := 128\<rparr>"]
        Status_ranges [of "NewMSendConf\<lparr>ResponseStatus := 192\<rparr>"]
        Status_ranges [of "NewMSendConf\<lparr>ResponseStatus := 223\<rparr>"]
        Status_ranges [of "NewMSendConf\<lparr>ResponseStatus := 224\<rparr>"]
        Status_ranges [of "NewMSendConf\<lparr>ResponseStatus := 255\<rparr>"]
        Status_ranges [of "NewMSendConf\<lparr>ResponseStatus := 0\<rparr>"]
        Status_ranges [of "NewMSendConf\<lparr>ResponseStatus := 127\<rparr>"]
        Status_ranges [of "NewMSendConf\<lparr>ResponseStatus := 137\<rparr>"]
        Status_ranges [of "NewMSendConf\<lparr>ResponseStatus := 191\<rparr>"]
  by simp

text \<open>
  Claim C2.  The legacy codes 129 to 136, whatever the other fields hold: 129, 130 and 134
  are \<^verbatim>\<open>ErrTransient\<close>; 131, 132, 133 (message not found), 135 and 136 are
  \<^verbatim>\<open>ErrPermanent\<close>.
\<close>

theorem Status_legacy_table:
  "MSendConf_Status (c\<lparr>ResponseStatus := 129\<rparr>) = Some ErrTransient \<and>
   MSendConf_Status (c\<lparr>ResponseStatus := 130\<rparr>) = Some ErrTransient \<and>
   MSendConf_Status (c\<lparr>ResponseStatus := 131\<rparr>) = Some ErrPermanent \<and>
   MSendConf_Status (c\<lparr>ResponseStatus := 132\<rparr>) = Some ErrPermanent \<and>
   MSendConf_Status (c\<lparr>ResponseStatus := 133\<rparr>) = Some ErrPermanent \<and>
   MSendConf_Status (c\<lparr>ResponseStatus := 134\<rparr>) = Some ErrTransient \<and>
   MSendConf_Status (c\<lparr>ResponseStatus := 135\<rparr>) = Some ErrPermanent \<and>
   MSendConf_Status (c\<lparr>ResponseStatus := 136\<rparr>) = Some ErrPermanent"
  by (simp add: MSendConf_Status_def ResponseStatus_defs)

text \<open>
  Claim C9.  \<^verbatim>\<open>Status()\<close> depends on the response status byte alone: two m-send.conf
  values with the same byte classify alike, whatever their type, transaction id, version,
  response text and message id.  The method reads its receiver and nothing else, so it is
  a function of it and classifying the same value again gives the same outcome.
\<close>

theorem Status_depends_on_ResponseStatus_only:
  "ResponseStatus a = ResponseStatus b \<Longrightarrow> MSendConf_Status a = MSendConf_Status b"
  by (simp add: MSendConf_Status_def)

text \<open>Two values that share the byte 130 and differ in every other field.\<close>

theorem Status_depends_on_ResponseStatus_only_witness:
  "MSendConf_Status
     \<lparr>MSendConf.Type = 0x81, TransactionId = ''t1'', Version = 0x90, ResponseStatus = 130,
      ResponseText = ''denied'', MessageId = ''m1''\<rparr>
   = MSendConf_Status
     \<lparr>MSendConf.Type = 0, TransactionId = ''other'', Version = 0x93, ResponseStatus = 130,
      ResponseText = '''', MessageId = ''m2''\<rparr>"
  using Status_depends_on_ResponseStatus_only
    [of "\<lparr>MSendConf.Type = 0x81, TransactionId = ''t1'', Version = 0x90, ResponseStatus = 130,
      ResponseText = ''denied'', MessageId = ''m1''\<rparr>"
     "\<lparr>MSendConf.Type = 0, TransactionId = ''other'', Version = 0x93, ResponseStatus = 130,
      ResponseText = '''', MessageId = ''m2''\<rparr>"]
  by simp

subsection \<open>The derived m-notifyresp.ind\<close>

text \<open>
  Claim C3.  The m-notifyresp.ind built from an m-notification.ind, a status byte and a
  flag has the notification's UUID, transaction id and version, the given status and the
  given report-allowed flag.
\<close>

theorem NotificationInd_NewMNotifyRespInd_copies:
  "MNotifyRespInd.UUID (MNotificationInd_NewMNotifyRespInd n s r) = MNotificationInd.UUID n \<and>
   MNotifyRespInd.TransactionId (MNotificationInd_NewMNotifyRespInd n s r)
     = MNotificationInd.TransactionId n \<and>
   MNotifyRespInd.Version (MNotificationInd_NewMNotifyRespInd n s r)
     = MNotificationInd.Version n \<and>
   MNotifyRespInd.Status (MNotificationInd_NewMNotifyRespInd n s r) = s \<and>
   MNotifyRespInd.ReportAllowed (MNotificationInd_NewMNotifyRespInd n s r) = r"
  by (simp add: MNotificationInd_NewMNotifyRespInd_def)

text \<open>
  Claim C4.  The m-notifyresp.ind built from an m-retrieve.conf has the fixed status
  \<^verbatim>\<open>STATUS_RETRIEVED\<close> (129), whatever the m-retrieve.conf holds (its own status field
  included), and its UUID, transaction id and version.
\<close>

theorem RetrieveConf_NewMNotifyRespInd_retrieved:
  "MNotifyRespInd.Status (MRetrieveConf_NewMNotifyRespInd c r) = STATUS_RETRIEVED \<and>
   STATUS_RETRIEVED = 129 \<and>
   MNotifyRespInd.UUID (MRetrieveConf_NewMNotifyRespInd c r) = MRetrieveConf.UUID c \<and>
   MNotifyRespInd.TransactionId (MRetrieveConf_NewMNotifyRespInd c r)
     = MRetrieveConf.TransactionId c \<and>
   MNotifyRespInd.Version (MRetrieveConf_NewMNotifyRespInd c r) = MRetrieveConf.Version c"
  by (simp add: MRetrieveConf_NewMNotifyRespInd_def STATUS_RETRIEVED_def)

subsection \<open>The struct tags\<close>

text \<open>
  Against claim C8 as stated: m-notification.ind declares the field \<^verbatim>\<open>UUID\<close>, the local
  identifier, with no \<^verbatim>\<open>encode\<close> tag at all.
\<close>

theorem NotificationInd_UUID_untagged:
  "''UUID'' \<in> set (field_names T_MNotificationInd) \<and>
   encode_tag T_MNotificationInd ''UUID'' = None \<and>
   encode_tag T_MNotificationInd ''UUID'' \<noteq> Some ''no''"
  by (simp add: field_names_def encode_tag_def)

lemma encode_tag_untagged:
  "snd ` set (struct_fields t) \<subseteq> {None} \<Longrightarrow> encode_tag t f = None"
  by (auto simp: encode_tag_def split: option.splits dest!: map_of_SomeD)

text \<open>
  Claim C8, amended.  The two structs that carry \<^verbatim>\<open>encode\<close> tags, m-send.req and
  m-notifyresp.ind, tag their local fields \<^verbatim>\<open>encode:"no"\<close>: \<^verbatim>\<open>UUID\<close>, \<^verbatim>\<open>Cc\<close>, \<^verbatim>\<open>Bcc\<close> and
  \<^verbatim>\<open>Attachments\<close> of m-send.req, \<^verbatim>\<open>UUID\<close> of m-notifyresp.ind.  The other three structs
  (m-send.conf, m-notification.ind, m-retrieve.conf) tag no field.
\<close>

theorem encode_no_tags:
  "encode_tag T_MSendReq ''UUID'' = Some ''no'' \<and>
   encode_tag T_MSendReq ''Cc'' = Some ''no'' \<and>
   encode_tag T_MSendReq ''Bcc'' = Some ''no'' \<and>
   encode_tag T_MSendReq ''Attachments'' = Some ''no'' \<and>
   encode_tag T_MNotifyRespInd ''UUID'' = Some ''no'' \<and>
   (\<forall>f. encode_tag T_MSendConf f = None) \<and>
   (\<forall>f. encode_tag T_MNotificationInd f = None) \<and>
   (\<forall>f. encode_tag T_MRetrieveConf f = None)"
  by (simp add: encode_tag_untagged) (simp add: encode_tag_def)

subsection \<open>The identifier generator\<close>

lemma length_hex_byte: "length (hex_byte c) = 2"
  by (simp add: hex_byte_def)

lemma length_Sprintf_x: "length (Sprintf_x b) = 2 * length b"
  by (induction b) (simp_all add: Sprintf_x_def length_hex_byte)

lemma length_Read: "length (Read delivered b) = length b"
  by (simp add: Read_def)

text \<open>What holds of \<^verbatim>\<open>genUUID\<close>: the literal when the open fails, 32 characters otherwise,
  the hex of the 16 bytes read when the source delivers them.\<close>

lemma genUUID_OpenFails: "genUUID OpenFails = ''1234567890ABCDEF''"
  by (simp add: genUUID_def)

lemma length_genUUID_Opens: "length (genUUID (Opens delivered err)) = 32"
  by (simp add: genUUID_def Let_def length_Sprintf_x length_Read)

lemma genUUID_Opens_full:
  "16 \<le> length delivered \<Longrightarrow> genUUID (Opens delivered err) = Sprintf_x (take 16 delivered)"
  by (simp add: genUUID_def Let_def Read_def)

lemma genUUID_not_empty: "genUUID random \<noteq> []"
proof (cases random)
  case OpenFails
  then show ?thesis by (simp add: genUUID_OpenFails)
next
  case (Opens delivered err)
  have "length (genUUID (Opens delivered err)) = 32"
    by (rule length_genUUID_Opens)
  with Opens show ?thesis by auto
qed

text \<open>
  Claim C7, at the input where it fails.  The open succeeds and the read fails, delivering
  nothing: \<^verbatim>\<open>genUUID\<close> prints the zeroed buffer, 32 zeros, and not the literal that a
  failed open gives.
\<close>

theorem genUUID_read_failure:
  "genUUID (Opens [] True) = ''00000000000000000000000000000000'' \<and>
   genUUID OpenFails = ''1234567890ABCDEF'' \<and>
   genUUID (Opens [] True) \<noteq> genUUID OpenFails"
  by code_simp

subsection \<open>The loop of \<^verbatim>\<open>NewMSendReq\<close>\<close>

text \<open>The loop leaves the attachment heaps and every other string array alone, and keeps
  the length of the array it writes.\<close>

lemma range_recipients_attachments:
  "attachment_ptrs (range_recipients i n s h) = attachment_ptrs h \<and>
   attachment_objs (range_recipients i n s h) = attachment_objs h"
proof (induction i n s h rule: range_recipients.induct)
  case (1 i n recipients h)
  show ?case
  proof (cases "i < n")
    case True
    with 1 show ?thesis
      by (subst (1 2) range_recipients.simps) (simp add: slice_set_def)
  next
    case False
    then show ?thesis
      by (subst (1 2) range_recipients.simps) simp
  qed
qed

lemma range_recipients_other_array:
  "p \<noteq> array s \<Longrightarrow> strings (range_recipients i n s h) p = strings h p"
proof (induction i n s h rule: range_recipients.induct)
  case (1 i n recipients h)
  show ?case
  proof (cases "i < n")
    case True
    with 1 show ?thesis
      by (subst range_recipients.simps) (simp add: slice_set_def)
  next
    case False
    then show ?thesis
      by (subst range_recipients.simps) simp
  qed
qed

lemma range_recipients_length:
  "length (strings (range_recipients i n s h) p) = length (strings h p)"
proof (induction i n s h rule: range_recipients.induct)
  case (1 i n recipients h)
  show ?case
  proof (cases "i < n")
    case True
    with 1 show ?thesis
      by (subst range_recipients.simps) (simp add: slice_set_def)
  next
    case False
    then show ?thesis
      by (subst range_recipients.simps) simp
  qed
qed

text \<open>Element \<open>j\<close> of the written array after the loop has run from \<open>i\<close> to \<open>n\<close>.\<close>

lemma range_recipients_nth:
  "j < length (strings h (array s)) \<Longrightarrow>
   strings (range_recipients i n s h) (array s) ! j =
     (if off s + i \<le> j \<and> j < off s + n
      then strings h (array s) ! j @ ''/TYPE=PLMN''
      else strings h (array s) ! j)"
proof (induction i n s h rule: range_recipients.induct)
  case (1 i n recipients h)
  show ?case
  proof (cases "i < n")
    case True
    let ?h1 = "slice_set h recipients i (slice_get h recipients i @ ''/TYPE=PLMN'')"
    have len1: "j < length (strings ?h1 (array recipients))"
      using 1(2) by (simp add: slice_set_def)
    have step: "strings (range_recipients i n recipients h) (array recipients) ! j
        = strings (range_recipients (Suc i) n recipients ?h1) (array recipients) ! j"
      using True by (subst range_recipients.simps) simp
    show ?thesis
      unfolding step "1.IH" [OF True len1]
      using True 1(2)
      by (cases "j = off recipients + i") (auto simp: slice_set_def slice_get_def)
  next
    case False
    then show ?thesis
      by (subst range_recipients.simps) simp
  qed
qed

lemma slice_elems_range_recipients:
  assumes "valid_slice h s"
  shows "slice_elems (range_recipients 0 (len s) s h) s
           = map (\<lambda>r. r @ ''/TYPE=PLMN'') (slice_elems h s)"
proof (rule nth_equalityI)
  show "length (slice_elems (range_recipients 0 (len s) s h) s)
          = length (map (\<lambda>r. r @ ''/TYPE=PLMN'') (slice_elems h s))"
    by (simp add: slice_elems_def range_recipients_length)
next
  fix k
  assume "k < length (slice_elems (range_recipients 0 (len s) s h) s)"
  then have k: "k < len s"
    by (simp add: slice_elems_def)
  with assms have j: "off s + k < length (strings h (array s))"
    and o: "off s \<le> length (strings h (array s))"
    by (simp_all add: valid_slice_def)
  show "slice_elems (range_recipients 0 (len s) s h) s ! k
          = map (\<lambda>r. r @ ''/TYPE=PLMN'') (slice_elems h s) ! k"
    using k j o by (simp add: slice_elems_def range_recipients_length range_recipients_nth)
qed

text \<open>The written array as a whole: the part before the slice, the slice's elements
  each with the suffix, the part after the slice.\<close>

lemma range_recipients_array:
  assumes "valid_slice h s"
  shows "strings (range_recipients 0 (len s) s h) (array s)
           = take (off s) (strings h (array s))
             @ map (\<lambda>r. r @ ''/TYPE=PLMN'') (slice_elems h s)
             @ drop (off s + len s) (strings h (array s))"
proof (rule nth_equalityI)
  show "length (strings (range_recipients 0 (len s) s h) (array s))
          = length (take (off s) (strings h (array s))
             @ map (\<lambda>r. r @ ''/TYPE=PLMN'') (slice_elems h s)
             @ drop (off s + len s) (strings h (array s)))"
    using assms by (simp add: range_recipients_length slice_elems_def valid_slice_def)
next
  fix j
  assume "j < length (strings (range_recipients 0 (len s) s h) (array s))"
  then have j: "j < length (strings h (array s))"
    by (simp add: range_recipients_length)
  have o: "off s + len s \<le> length (strings h (array s))"
    using assms by (simp add: valid_slice_def)
  consider "j < off s" | "off s \<le> j" "j < off s + len s" | "off s + len s \<le> j"
    by linarith
  then show "strings (range_recipients 0 (len s) s h) (array s) ! j
          = (take (off s) (strings h (array s))
             @ map (\<lambda>r. r @ ''/TYPE=PLMN'') (slice_elems h s)
             @ drop (off s + len s) (strings h (array s))) ! j"
  proof cases
    case 1
    with j o show ?thesis
      by (simp add: range_recipients_nth nth_append)
  next
    case 2
    then have "j - off s < len s"
      by linarith
    with 2 j o show ?thesis
      by (simp add: range_recipients_nth nth_append slice_elems_def)
  next
    case 3
    then have "\<not> j - off s < len s" and "\<not> j < off s"
      and "off s + len s + (j - off s - len s) = j"
      by linarith+
    with 3 j o show ?thesis
      by (simp add: range_recipients_nth nth_append slice_elems_def)
  qed
qed

subsection \<open>\<^verbatim>\<open>NewMSendReq\<close>\<close>

lemma NewMSendReq_To:
  "valid_slice h recipients \<Longrightarrow>
   MSendReq.To (snd (NewMSendReq random recipients atts h))
     = Join (map (\<lambda>r. r @ ''/TYPE=PLMN'') (slice_elems h recipients)) '',''"
  by (simp add: NewMSendReq_def Let_def slice_elems_range_recipients)

text \<open>
  Claim C5.  For every recipient slice, \<^verbatim>\<open>To\<close> of the new m-send.req is the recipients,
  each with \<^verbatim>\<open>/TYPE=PLMN\<close> appended, joined in order by commas; the transaction id equals
  the UUID and neither is empty; the version is \<^verbatim>\<open>MMS_MESSAGE_VERSION_1_3\<close>, the highest
  of the four version codes; the content type is
  \<^verbatim>\<open>application/vnd.wap.multipart.related\<close>.
\<close>

theorem NewMSendReq_fields:
  assumes "valid_slice h recipients"
  shows "MSendReq.To (snd (NewMSendReq random recipients atts h))
           = Join (map (\<lambda>r. r @ ''/TYPE=PLMN'') (slice_elems h recipients)) '','' \<and>
         MSendReq.TransactionId (snd (NewMSendReq random recipients atts h))
           = MSendReq.UUID (snd (NewMSendReq random recipients atts h)) \<and>
         MSendReq.UUID (snd (NewMSendReq random recipients atts h)) \<noteq> [] \<and>
         MSendReq.TransactionId (snd (NewMSendReq random recipients atts h)) \<noteq> [] \<and>
         MSendReq.Version (snd (NewMSendReq random recipients atts h))
           = MMS_MESSAGE_VERSION_1_3 \<and>
         MMS_MESSAGE_VERSION_1_0 \<le> MMS_MESSAGE_VERSION_1_3 \<and>
         MMS_MESSAGE_VERSION_1_1 \<le> MMS_MESSAGE_VERSION_1_3 \<and>
         MMS_MESSAGE_VERSION_1_2 \<le> MMS_MESSAGE_VERSION_1_3 \<and>
         MSendReq.ContentType (snd (NewMSendReq random recipients atts h))
           = ''application/vnd.wap.multipart.related''"
proof -
  have "MSendReq.UUID (snd (NewMSendReq random recipients atts h)) = genUUID random"
    and "MSendReq.TransactionId (snd (NewMSendReq random recipients atts h)) = genUUID random"
    and "MSendReq.Version (snd (NewMSendReq random recipients atts h))
           = MMS_MESSAGE_VERSION_1_3"
    and "MSendReq.ContentType (snd (NewMSendReq random recipients atts h))
           = ''application/vnd.wap.multipart.related''"
    by (simp_all add: NewMSendReq_def Let_def)
  moreover have "MMS_MESSAGE_VERSION_1_0 \<le> MMS_MESSAGE_VERSION_1_3"
    and "MMS_MESSAGE_VERSION_1_1 \<le> MMS_MESSAGE_VERSION_1_3"
    and "MMS_MESSAGE_VERSION_1_2 \<le> MMS_MESSAGE_VERSION_1_3"
    by (simp_all add: MMS_MESSAGE_VERSION_1_0_def MMS_MESSAGE_VERSION_1_1_def
        MMS_MESSAGE_VERSION_1_2_def MMS_MESSAGE_VERSION_1_3_def)
  ultimately show ?thesis
    using NewMSendReq_To [OF assms] genUUID_not_empty [of random] by simp
qed

text \<open>The recipients \<^verbatim>\<open>["a", "b"]\<close> give \<^verbatim>\<open>a/TYPE=PLMN,b/TYPE=PLMN\<close>, version 0x93.\<close>

theorem NewMSendReq_fields_witness:
  "valid_slice
     \<lparr>strings = (\<lambda>p. [])(0 := [''a'', ''b'']), attachment_ptrs = (\<lambda>p. []),
      attachment_objs = (\<lambda>p. ())\<rparr>
     \<lparr>array = 0, off = 0, len = 2\<rparr> \<and>
   MSendReq.To (snd (NewMSendReq OpenFails \<lparr>array = 0, off = 0, len = 2\<rparr> nil_slice
     \<lparr>strings = (\<lambda>p. [])(0 := [''a'', ''b'']), attachment_ptrs = (\<lambda>p. []),
      attachment_objs = (\<lambda>p. ())\<rparr>))
     = ''a/TYPE=PLMN,b/TYPE=PLMN'' \<and>
   MSendReq.Version (snd (NewMSendReq OpenFails \<lparr>array = 0, off = 0, len = 2\<rparr> nil_slice
     \<lparr>strings = (\<lambda>p. [])(0 := [''a'', ''b'']), attachment_ptrs = (\<lambda>p. []),
      attachment_objs = (\<lambda>p. ())\<rparr>))
     = 0x93"
proof -
  let ?h = "\<lparr>strings = (\<lambda>p. [])(0 := [''a'', ''b'']), attachment_ptrs = (\<lambda>p. []),
      attachment_objs = (\<lambda>p. ())\<rparr>"
  let ?s = "\<lparr>array = 0, off = 0, len = 2\<rparr>"
  have v: "valid_slice ?h ?s"
    by (simp add: valid_slice_def)
  show ?thesis
    using v NewMSendReq_fields [OF v, of OpenFails nil_slice]
    by (simp add: slice_elems_def MMS_MESSAGE_VERSION_1_3_def)
qed

text \<open>
  Against claim C6 as stated: given the nil slice for the recipients, \<^verbatim>\<open>NewMSendReq\<close>
  returns a complete m-send.req, its \<^verbatim>\<open>To\<close> empty.  Nothing is rejected.
\<close>

theorem NewMSendReq_empty_recipients_constructed:
  "snd (NewMSendReq OpenFails nil_slice nil_slice
     \<lparr>strings = (\<lambda>p. []), attachment_ptrs = (\<lambda>p. []), attachment_objs = (\<lambda>p. ())\<rparr>)
   = \<lparr>MSendReq.UUID = ''1234567890ABCDEF'', Type = 0x80,
      TransactionId = ''1234567890ABCDEF'', Version = 0x93, Date = 0, From = '''',
      To = '''', Cc = '''', Bcc = '''', Subject = '''', Class = 0, Expiry = 0,
      DeliveryTime = 0, Priority = 0, SenderVisibility = 0, DeliveryReport = 0, ReadReply = 0,
      ContentType = ''application/vnd.wap.multipart.related'',
      Attachments = nil_slice\<rparr>"
  by (simp add: NewMSendReq_def Let_def nil_slice_def slice_elems_def genUUID_def
      TYPE_SEND_REQ_def MMS_MESSAGE_VERSION_1_3_def)

text \<open>
  Claim C6, amended.  \<^verbatim>\<open>NewMSendReq\<close> has no error result and checks nothing: given a
  recipient slice of length 0 it leaves the heap as it is and returns an m-send.req whose
  \<^verbatim>\<open>To\<close> is the empty string, with type, UUID, transaction id, version, content type and
  attachments set as for any other recipient list.
\<close>

theorem NewMSendReq_empty_recipients:
  "NewMSendReq random (recipients\<lparr>len := 0\<rparr>) atts h
   = (h, \<lparr>MSendReq.UUID = genUUID random, Type = TYPE_SEND_REQ,
         TransactionId = genUUID random, Version = MMS_MESSAGE_VERSION_1_3, Date = 0,
         From = '''', To = '''', Cc = '''', Bcc = '''', Subject = '''', Class = 0, Expiry = 0,
         DeliveryTime = 0, Priority = 0, SenderVisibility = 0, DeliveryReport = 0,
         ReadReply = 0, ContentType = ''application/vnd.wap.multipart.related'',
         Attachments = atts\<rparr>)"
  by (simp add: NewMSendReq_def Let_def slice_elems_def range_recipients.simps)

text \<open>
  Claim C10.  \<^verbatim>\<open>NewMSendReq\<close> writes through the caller's recipient slice: afterwards
  every index \<open>i\<close> of the slice holds the entry it held before with \<^verbatim>\<open>/TYPE=PLMN\<close>
  appended.  Nothing else changes: the backing array outside the slice, every other
  string array, the backing arrays of the attachment slices and the attachment objects
  are as before, and the attachment slice is stored in the struct as it was passed.
\<close>

theorem NewMSendReq_frame:
  assumes "valid_slice h recipients"
  shows "(\<forall>i < len recipients.
            slice_get (fst (NewMSendReq random recipients atts h)) recipients i
              = slice_get h recipients i @ ''/TYPE=PLMN'') \<and>
         strings (fst (NewMSendReq random recipients atts h)) (array recipients)
           = take (off recipients) (strings h (array recipients))
             @ map (\<lambda>r. r @ ''/TYPE=PLMN'') (slice_elems h recipients)
             @ drop (off recipients + len recipients) (strings h (array recipients)) \<and>
         (\<forall>p. p \<noteq> array recipients \<longrightarrow>
            strings (fst (NewMSendReq random recipients atts h)) p = strings h p) \<and>
         attachment_ptrs (fst (NewMSendReq random recipients atts h)) = attachment_ptrs h \<and>
         attachment_objs (fst (NewMSendReq random recipients atts h)) = attachment_objs h \<and>
         MSendReq.Attachments (snd (NewMSendReq random recipients atts h)) = atts"
proof -
  have fst_eq: "fst (NewMSendReq random recipients atts h)
                  = range_recipients 0 (len recipients) recipients h"
    by (simp add: NewMSendReq_def Let_def)
  have "\<forall>i < len recipients.
          slice_get (range_recipients 0 (len recipients) recipients h) recipients i
            = slice_get h recipients i @ ''/TYPE=PLMN''"
    using assms by (simp add: slice_get_def valid_slice_def range_recipients_nth)
  moreover have "MSendReq.Attachments (snd (NewMSendReq random recipients atts h)) = atts"
    by (simp add: NewMSendReq_def Let_def)
  ultimately show ?thesis
    unfolding fst_eq
    by (simp add: range_recipients_array [OF assms] range_recipients_other_array
        range_recipients_attachments)
qed

text \<open>
  A slice of two recipients in the middle of an array of four, a second string array and
  an attachment slice of two pointers: the two recipients are rewritten, their neighbours,
  the other array and the attachment pointers are not.
\<close>

theorem NewMSendReq_frame_witness:
  "valid_slice
     \<lparr>strings = (\<lambda>p. [])(3 := [''x'', ''a'', ''b'', ''y''], 4 := [''z'']),
      attachment_ptrs = (\<lambda>p. [])(7 := [Some 9, None]),
      attachment_objs = (\<lambda>p. False)(9 := True)\<rparr>
     \<lparr>array = 3, off = 1, len = 2\<rparr> \<and>
   strings (fst (NewMSendReq (Opens [] True) \<lparr>array = 3, off = 1, len = 2\<rparr>
       \<lparr>array = 7, off = 0, len = 2\<rparr>
       \<lparr>strings = (\<lambda>p. [])(3 := [''x'', ''a'', ''b'', ''y''], 4 := [''z'']),
        attachment_ptrs = (\<lambda>p. [])(7 := [Some 9, None]),
        attachment_objs = (\<lambda>p. False)(9 := True)\<rparr>)) 3
     = [''x'', ''a/TYPE=PLMN'', ''b/TYPE=PLMN'', ''y''] \<and>
   strings (fst (NewMSendReq (Opens [] True) \<lparr>array = 3, off = 1, len = 2\<rparr>
       \<lparr>array = 7, off = 0, len = 2\<rparr>
       \<lparr>strings = (\<lambda>p. [])(3 := [''x'', ''a'', ''b'', ''y''], 4 := [''z'']),
        attachment_ptrs = (\<lambda>p. [])(7 := [Some 9, None]),
        attachment_objs = (\<lambda>p. False)(9 := True)\<rparr>)) 4
     = [''z''] \<and>
   attachment_ptrs (fst (NewMSendReq (Opens [] True) \<lparr>array = 3, off = 1, len = 2\<rparr>
       \<lparr>array = 7, off = 0, len = 2\<rparr>
       \<lparr>strings = (\<lambda>p. [])(3 := [''x'', ''a'', ''b'', ''y''], 4 := [''z'']),
        attachment_ptrs = (\<lambda>p. [])(7 := [Some 9, None]),
        attachment_objs = (\<lambda>p. False)(9 := True)\<rparr>)) 7
     = [Some 9, None]"
proof -
  let ?h = "\<lparr>strings = (\<lambda>p. [])(3 := [''x'', ''a'', ''b'', ''y''], 4 := [''z'']),
      attachment_ptrs = (\<lambda>p. [])(7 := [Some 9, None]),
      attachment_objs = (\<lambda>p. False)(9 := True)\<rparr>"
  let ?s = "\<lparr>array = 3, off = 1, len = 2\<rparr>"
  have v: "valid_slice ?h ?s"
    by (simp add: valid_slice_def)
  show ?thesis
    using v NewMSendReq_frame [OF v, of "Opens [] True" "\<lparr>array = 7, off = 0, len = 2\<rparr>"]
    by (simp add: slice_elems_def)
qed

end
